theory Spec2Isabelle
  imports Main "HOL-Library.AList"
begin

section \<open>Values, strings and the secret denylist (events.ts)\<close>

text \<open>
  Timestamps, priorities and counters are JavaScript numbers that hold integers
  (milliseconds since the epoch, small counts); they are modelled as \<open>int\<close>.
  Strings are lists of 8-bit characters.
  An event payload is an arbitrary JSON-like value (\<open>v.any()\<close>); \<open>JNull\<close> stands for
  both \<open>null\<close> and \<open>undefined\<close>, which \<open>containsSecret\<close> treats alike.
\<close>

datatype json =
    JNull
  | JBool bool
  | JNum int
  | JStr string
  | JArr "json list"
  | JObj "(string \<times> json) list"

text \<open>
  The regular expressions of \<open>SECRET_PATTERNS\<close> use literals, character classes,
  concatenation, \<open>+\<close>, \<open>*\<close>, \<open>?\<close> and \<open>{n,}\<close>. \<open>RegExp.test\<close> on a pattern without
  anchors asks whether some substring of the subject is in the pattern's language; the
  matcher below decides that with Brzozowski derivatives.
\<close>

datatype rx =
    Zero
  | Eps
  | Chars "char list"
  | Cat rx rx
  | Alt rx rx
  | Star rx
  | AtLeast nat rx

fun nullable :: "rx \<Rightarrow> bool" where
  "nullable Zero = False"
| "nullable Eps = True"
| "nullable (Chars cs) = False"
| "nullable (Cat r s) = (if nullable r then nullable s else False)"
| "nullable (Alt r s) = (if nullable r then True else nullable s)"
| "nullable (Star r) = True"
| "nullable (AtLeast n r) = (if n = 0 then True else nullable r)"

text \<open>Concatenation and alternative that absorb the empty language.\<close>

definition cat :: "rx \<Rightarrow> rx \<Rightarrow> rx" where
  "cat r s = (case r of Zero \<Rightarrow> Zero | _ \<Rightarrow> Cat r s)"

definition alt :: "rx \<Rightarrow> rx \<Rightarrow> rx" where
  "alt r s = (case r of Zero \<Rightarrow> s | _ \<Rightarrow> (case s of Zero \<Rightarrow> r | _ \<Rightarrow> Alt r s))"

fun deriv :: "char \<Rightarrow> rx \<Rightarrow> rx" where
  "deriv c Zero = Zero"
| "deriv c Eps = Zero"
| "deriv c (Chars cs) = (if c \<in> set cs then Eps else Zero)"
| "deriv c (Cat r s) =
     (if nullable r then alt (cat (deriv c r) s) (deriv c s) else cat (deriv c r) s)"
| "deriv c (Alt r s) = alt (deriv c r) (deriv c s)"
| "deriv c (Star r) = cat (deriv c r) (Star r)"
| "deriv c (AtLeast n r) = cat (deriv c r) (AtLeast (n - 1) r)"

text \<open>\<open>rx_prefix r s\<close>: some prefix of \<open>s\<close> is in the language of \<open>r\<close>.\<close>

fun rx_prefix :: "rx \<Rightarrow> string \<Rightarrow> bool" where
  "rx_prefix r [] = nullable r"
| "rx_prefix r (c # cs) =
     (if nullable r then True
      else (case deriv c r of Zero \<Rightarrow> False | d \<Rightarrow> rx_prefix d cs))"

text \<open>\<open>rx_test r s\<close>: some substring of \<open>s\<close> is in the language of \<open>r\<close>.\<close>

fun rx_test :: "rx \<Rightarrow> string \<Rightarrow> bool" where
  "rx_test r [] = nullable r"
| "rx_test r (c # cs) = (if rx_prefix r (c # cs) then True else rx_test r cs)"

fun lit :: "string \<Rightarrow> rx" where
  "lit [] = Eps"
| "lit (c # cs) = Cat (Chars [c]) (lit cs)"

definition opt_rx :: "rx \<Rightarrow> rx" where
  "opt_rx r = Alt r Eps"

definition upper :: "char list" where
  "upper = ''ABCDEFGHIJKLMNOPQRSTUVWXYZ''"

definition lower :: "char list" where
  "lower = ''abcdefghijklmnopqrstuvwxyz''"

definition digit :: "char list" where
  "digit = ''0123456789''"

definition alnum :: "char list" where
  "alnum = upper @ lower @ digit"

definition space_class :: "char list" where
  "space_class = [CHR 0x09, CHR 0x0A, CHR 0x0B, CHR 0x0C, CHR 0x0D, CHR 0x20, CHR 0xA0]"

definition SECRET_PATTERNS :: "rx list" where
  "SECRET_PATTERNS =
    [ Cat (lit ''ghp_'') (AtLeast 36 (Chars (alnum @ ''_''))),
      Cat (lit ''gho_'') (AtLeast 36 (Chars (alnum @ ''_''))),
      Cat (lit ''ghu_'') (AtLeast 36 (Chars (alnum @ ''_''))),
      Cat (lit ''ghs_'') (AtLeast 36 (Chars (alnum @ ''_''))),
      Cat (lit ''github_pat_'') (AtLeast 22 (Chars (alnum @ ''_''))),
      Cat (lit ''sk-'') (AtLeast 20 (Chars alnum)),
      Cat (lit ''sk_live_'') (AtLeast 20 (Chars alnum)),
      Cat (lit ''sk_test_'') (AtLeast 20 (Chars alnum)),
      Cat (lit ''Bearer'')
        (Cat (AtLeast 1 (Chars space_class))
          (Cat (AtLeast 1 (Chars (alnum @ ''-._~+/''))) (Star (Chars ''='')))),
      Cat (lit ''-----BEGIN'')
        (Cat (AtLeast 1 (Chars space_class))
          (Cat (opt_rx (Cat (lit ''RSA'') (AtLeast 1 (Chars space_class))))
            (Cat (lit ''PRIVATE'')
              (Cat (AtLeast 1 (Chars space_class)) (lit ''KEY-----''))))),
      Cat (lit ''-----BEGIN'')
        (Cat (AtLeast 1 (Chars space_class)) (lit ''CERTIFICATE-----'')),
      Cat (lit ''xoxb-'') (AtLeast 6 (Chars (alnum @ ''._-''))),
      Cat (lit ''xoxp-'') (AtLeast 6 (Chars (alnum @ ''._-''))),
      Cat (lit ''AKIA'') (AtLeast 16 (Chars (digit @ upper))) ]"

fun containsSecret :: "json \<Rightarrow> bool" where
  "containsSecret JNull = False"
| "containsSecret (JStr s) = list_ex (\<lambda>p. rx_test p s) SECRET_PATTERNS"
| "containsSecret (JArr xs) = list_ex containsSecret xs"
| "containsSecret (JObj kvs) = list_ex containsSecret (map snd kvs)"
| "containsSecret (JBool b) = False"
| "containsSecret (JNum n) = False"


section \<open>Schema (schema.ts)\<close>

datatype cardState = READY | RUNNING | NEEDS_DECISION | RETRY_SCHEDULED | DONE | FAILED

datatype decisionState = PENDING | CLAIMED | RENDERED | EXPIRED

datatype urgencyLevel = Now | Today | Whenever

datatype commandStatus = CmdPENDING | CmdRUNNING | CmdSUCCEEDED | CmdFAILED | CmdCANCELED

datatype rbacRole = Owner | Operator | Viewer | Bot

datatype eventType =
    CommandRequested | CommandStarted | CommandSucceeded | CommandFailed
  | CommandCanceled | CommandRetryScheduled | CommandSkippedDuplicate
  | DecisionRequested | DecisionClaimed | DecisionRendered | DecisionRenderRejected
  | DecisionExpired
  | ArtifactProduced | CardCreated | CardTransitioned
  | SloBreached | DecisionDeferred | DecisionClaimExpired | ReconciliationDrift

record producer =
  service :: string
  version :: string

record decisionOption =
  opt_key :: string
  opt_label :: string
  opt_consequence :: string

record sourceThread =
  platform :: string
  channelId :: string
  messageId :: string

record commandConstraints =
  cc_priority :: "int option"
  cc_timeoutMs :: "int option"
  cc_maxRetries :: "int option"
  cc_concurrencyKey :: "string option"

record commandSpec =
  commandType :: string
  commandVersion :: "int option"
  spec_args :: "json option"
  spec_context :: "json option"
  spec_constraints :: "commandConstraints option"

record cardConstraints =
  concurrencyKey :: "string option"
  maxRetries :: "int option"

record cardSpec =
  cs_commandType :: string
  cs_args :: "json option"
  cs_constraints :: "cardConstraints option"

record event =
  ev_eventId :: string
  ev_tenantId :: string
  ev_projectId :: string
  ev_type :: eventType
  ev_version :: int
  ev_ts :: int
  ev_correlationId :: string
  ev_causationId :: "string option"
  ev_commandId :: "string option"
  ev_runId :: "string option"
  ev_cardId :: "string option"
  ev_decisionId :: "string option"
  ev_idempotencyKey :: "string option"
  ev_producer :: producer
  ev_tags :: "json option"
  ev_payload :: json

record command =
  cmd_commandId :: string
  cmd_tenantId :: string
  cmd_projectId :: string
  cmd_status :: commandStatus
  cmd_latestRunId :: "string option"
  cmd_lastEventId :: "string option"
  cmd_updatedTs :: int
  cmd_priority :: int
  cmd_commandSpec :: commandSpec

record card =
  card_cardId :: string
  card_tenantId :: string
  card_projectId :: string
  card_state :: cardState
  card_priority :: int
  card_title :: string
  card_spec :: cardSpec
  card_createdTs :: int
  card_updatedTs :: int
  card_attempt :: int
  card_retryAtTs :: "int option"
  card_capabilities :: "string list option"
  card_leasedTo :: "string option"
  card_leaseUntilTs :: "int option"
  card_lastHeartbeatTs :: "int option"

record decision =
  dec_decisionId :: string
  dec_tenantId :: string
  dec_projectId :: string
  dec_cardId :: string
  dec_commandId :: string
  dec_runId :: string
  dec_state :: decisionState
  dec_urgency :: urgencyLevel
  dec_title :: string
  dec_contextSummary :: "string option"
  dec_options :: "decisionOption list"
  dec_artifactRefs :: "string list option"
  dec_sourceThread :: "sourceThread option"
  dec_requestedAt :: int
  dec_expiresAt :: "int option"
  dec_fallbackOption :: "string option"
  dec_claimedBy :: "string option"
  dec_claimedUntil :: "int option"
  dec_renderedOption :: "string option"
  dec_renderedAt :: "int option"
  dec_renderedBy :: "string option"

record member =
  mem_tenantId :: string
  mem_projectId :: string
  mem_userId :: string
  mem_role :: rbacRole

text \<open>
  The database: one list per table, in insertion order. A document's \<open>_id\<close> is its
  position in the list, so \<open>db.insert\<close> appends and returns the old length, and
  \<open>db.patch\<close> updates the row at that position. No modelled mutation deletes a row.
\<close>

record db =
  events :: "event list"
  commands :: "command list"
  cards :: "card list"
  decisions :: "decision list"
  project_members :: "member list"

text \<open>
  The mutation context outside the database: the ambient identity
  (\<open>ctx.auth.getUserIdentity()\<close>), the clock (\<open>Date.now()\<close>) and the source of the
  random identifiers of \<open>generateId\<close>; the \<open>k\<close>-th draw is \<open>ctx_rnd ctx k\<close>.
\<close>

record identity =
  subject :: "string option"
  tokenIdentifier :: string

record ctx =
  ctx_auth :: "identity option"
  ctx_clock :: int
  ctx_rnd :: "nat \<Rightarrow> string"

datatype error =
    Unauthenticated
  | NotAMember
  | InsufficientPermissions "rbacRole list"
  | DecisionNotFound
  | CardNotFound string
  | InvalidTransition cardState cardState
  | NotClaimable decisionState
  | NotYourClaim
  | InvalidOptions
  | InvalidFallback string
  | InvalidOption string
  | SecretInPayload
  | SecretInTags
  | NotUnique

definition generateId :: "ctx \<Rightarrow> nat \<Rightarrow> string \<Rightarrow> string" where
  "generateId c k prefix = prefix @ ''_'' @ ctx_rnd c k"

subsection \<open>Queries\<close>

text \<open>
  \<open>rows_where P xs\<close>: the rows satisfying \<open>P\<close> with their ids, in insertion order
  (\<open>.collect()\<close>); \<open>first_where\<close> is \<open>.first()\<close>; \<open>unique_where\<close> is \<open>.unique()\<close>,
  which throws when several rows match.
\<close>

definition rows_where :: "('a \<Rightarrow> bool) \<Rightarrow> 'a list \<Rightarrow> (nat \<times> 'a) list" where
  "rows_where P xs = filter (\<lambda>ir. P (snd ir)) (enumerate 0 xs)"

definition first_where :: "('a \<Rightarrow> bool) \<Rightarrow> 'a list \<Rightarrow> (nat \<times> 'a) option" where
  "first_where P xs = (case rows_where P xs of [] \<Rightarrow> None | r # rs \<Rightarrow> Some r)"

definition unique_where :: "('a \<Rightarrow> bool) \<Rightarrow> 'a list \<Rightarrow> error + (nat \<times> 'a) option" where
  "unique_where P xs =
     (case rows_where P xs of
        [] \<Rightarrow> Inr None
      | [r] \<Rightarrow> Inr (Some r)
      | r # r' # rs \<Rightarrow> Inl NotUnique)"

text \<open>A loop whose body may throw: the first error ends the loop and is the result.\<close>

fun forEach :: "('a \<Rightarrow> 's \<Rightarrow> error + 's) \<Rightarrow> 'a list \<Rightarrow> 's \<Rightarrow> error + 's" where
  "forEach f [] s = Inr s"
| "forEach f (x # xs) s = (case f x s of Inl e \<Rightarrow> Inl e | Inr s' \<Rightarrow> forEach f xs s')"

section \<open>The event log (events.ts)\<close>

definition appendEvent :: "event \<Rightarrow> db \<Rightarrow> error + (nat \<times> db)" where
  "appendEvent args s =
     (if containsSecret (ev_payload args) then Inl SecretInPayload
      else if (case ev_tags args of None \<Rightarrow> False | Some t \<Rightarrow> containsSecret t)
        then Inl SecretInTags
      else
        (case (case ev_idempotencyKey args of
                 None \<Rightarrow> None
               | Some k \<Rightarrow> first_where (\<lambda>e. ev_idempotencyKey e = Some k) (events s)) of
           Some existing \<Rightarrow> Inr (fst existing, s)
         | None \<Rightarrow> Inr (length (events s), s\<lparr>events := events s @ [args]\<rparr>)))"

text \<open>An event as the callers build it: the fields every call site sets.\<close>

definition mkEvent ::
  "string \<Rightarrow> string \<Rightarrow> string \<Rightarrow> eventType \<Rightarrow> int \<Rightarrow> string \<Rightarrow> string \<Rightarrow> json \<Rightarrow> event" where
  "mkEvent eid tenant project ty ts corr svc payload =
     \<lparr> ev_eventId = eid, ev_tenantId = tenant, ev_projectId = project, ev_type = ty,
       ev_version = 1, ev_ts = ts, ev_correlationId = corr, ev_causationId = None,
       ev_commandId = None, ev_runId = None, ev_cardId = None, ev_decisionId = None,
       ev_idempotencyKey = None,
       ev_producer = \<lparr> service = svc, version = ''0.1.0'' \<rparr>,
       ev_tags = None, ev_payload = payload \<rparr>"

definition evtId :: "ctx \<Rightarrow> db \<Rightarrow> string" where
  "evtId c s = generateId c (length (events s)) ''evt''"

definition jopt :: "('a \<Rightarrow> json) \<Rightarrow> 'a option \<Rightarrow> json" where
  "jopt f x = (case x of None \<Rightarrow> JNull | Some y \<Rightarrow> f y)"

section \<open>Access guard (auth.ts)\<close>

record authContext =
  userId :: string
  tenantId :: string
  projectId :: string
  role :: rbacRole

definition resolveAuth :: "ctx \<Rightarrow> string \<Rightarrow> db \<Rightarrow> error + authContext" where
  "resolveAuth c pid s =
     (case ctx_auth c of
        None \<Rightarrow> Inl Unauthenticated
      | Some ident \<Rightarrow>
          (let uid = (case subject ident of Some u \<Rightarrow> u | None \<Rightarrow> tokenIdentifier ident) in
           case unique_where (\<lambda>m. mem_userId m = uid \<and> mem_projectId m = pid)
                  (project_members s) of
             Inl e \<Rightarrow> Inl e
           | Inr None \<Rightarrow> Inl NotAMember
           | Inr (Some m) \<Rightarrow>
               Inr \<lparr> userId = uid, tenantId = mem_tenantId (snd m),
                     projectId = mem_projectId (snd m), role = mem_role (snd m) \<rparr>))"

definition withAuth ::
  "rbacRole list \<Rightarrow> (authContext \<Rightarrow> db \<Rightarrow> error + 'r) \<Rightarrow> ctx \<Rightarrow> string \<Rightarrow> db \<Rightarrow> error + 'r" where
  "withAuth roles handler c pid s =
     (case resolveAuth c pid s of
        Inl e \<Rightarrow> Inl e
      | Inr a \<Rightarrow>
          if role a \<noteq> Owner \<and> role a \<notin> set roles then Inl (InsufficientPermissions roles)
          else handler a s)"

section \<open>Cards (cards.ts)\<close>

definition cardState_str :: "cardState \<Rightarrow> string" where
  "cardState_str st =
     (case st of READY \<Rightarrow> ''READY'' | RUNNING \<Rightarrow> ''RUNNING''
      | NEEDS_DECISION \<Rightarrow> ''NEEDS_DECISION'' | RETRY_SCHEDULED \<Rightarrow> ''RETRY_SCHEDULED''
      | DONE \<Rightarrow> ''DONE'' | FAILED \<Rightarrow> ''FAILED'')"

definition VALID_TRANSITIONS :: "cardState \<Rightarrow> cardState list" where
  "VALID_TRANSITIONS st =
     (case st of
        READY \<Rightarrow> [RUNNING]
      | RUNNING \<Rightarrow> [DONE, NEEDS_DECISION, FAILED, RETRY_SCHEDULED]
      | NEEDS_DECISION \<Rightarrow> [RUNNING, FAILED]
      | RETRY_SCHEDULED \<Rightarrow> [READY]
      | DONE \<Rightarrow> []
      | FAILED \<Rightarrow> [])"

definition cardConstraints_json :: "cardConstraints \<Rightarrow> json" where
  "cardConstraints_json k =
     JObj [(''concurrencyKey'', jopt JStr (concurrencyKey k)),
           (''maxRetries'', jopt JNum (maxRetries k))]"

definition cardSpec_json :: "cardSpec \<Rightarrow> json" where
  "cardSpec_json sp =
     JObj [(''commandType'', JStr (cs_commandType sp)),
           (''args'', jopt id (cs_args sp)),
           (''constraints'', jopt cardConstraints_json (cs_constraints sp))]"

record createCard_args =
  cca_tenantId :: string
  cca_projectId :: string
  cca_commandId :: string
  cca_correlationId :: string
  cca_title :: string
  cca_priority :: int
  cca_spec :: cardSpec
  cca_capabilities :: "string list option"

text \<open>
  \<open>createCard\<close> is a public mutation whose handler is not wrapped in \<open>withAuth\<close>: it
  never reads \<open>ctx.auth\<close>. It returns the new card id and document id.
\<close>

definition createCard :: "ctx \<Rightarrow> createCard_args \<Rightarrow> db \<Rightarrow> error + ((string \<times> nat) \<times> db)" where
  "createCard c args s =
     (let now = ctx_clock c;
          cardId = generateId c (length (cards s)) ''card'';
          docId = length (cards s);
          s1 = s\<lparr>cards := cards s @
                 [\<lparr> card_cardId = cardId, card_tenantId = cca_tenantId args,
                    card_projectId = cca_projectId args, card_state = READY,
                    card_priority = cca_priority args, card_title = cca_title args,
                    card_spec = cca_spec args, card_createdTs = now, card_updatedTs = now,
                    card_attempt = 0, card_retryAtTs = None,
                    card_capabilities = cca_capabilities args, card_leasedTo = None,
                    card_leaseUntilTs = None, card_lastHeartbeatTs = None \<rparr>]\<rparr>
      in case appendEvent
             ((mkEvent (evtId c s1) (cca_tenantId args) (cca_projectId args) CardCreated now
                 (cca_correlationId args) ''clawops-cards''
                 (JObj [(''title'', JStr (cca_title args)),
                        (''priority'', JNum (cca_priority args)),
                        (''spec'', cardSpec_json (cca_spec args))]))
               \<lparr> ev_commandId := Some (cca_commandId args), ev_cardId := Some cardId \<rparr>) s1 of
           Inl e \<Rightarrow> Inl e
         | Inr r \<Rightarrow> Inr ((cardId, docId), snd r))"

record transitionCard_args =
  tca_cardId :: string
  tca_to :: cardState
  tca_reason :: string
  tca_correlationId :: string
  tca_commandId :: "string option"
  tca_runId :: "string option"
  tca_decisionId :: "string option"
  tca_retryAtTs :: "int option"

definition transition_patch :: "transitionCard_args \<Rightarrow> int \<Rightarrow> card \<Rightarrow> card" where
  "transition_patch args now cd =
     (let p1 = cd\<lparr>card_state := tca_to args, card_updatedTs := now\<rparr>;
          p2 = (if tca_to args = RUNNING then p1\<lparr>card_attempt := card_attempt cd + 1\<rparr> else p1);
          p3 = (if tca_to args = RETRY_SCHEDULED \<and> tca_retryAtTs args \<noteq> None
                then p2\<lparr>card_retryAtTs := tca_retryAtTs args\<rparr> else p2)
      in if card_state cd = RETRY_SCHEDULED then p3\<lparr>card_retryAtTs := None\<rparr> else p3)"

definition transitionCard ::
  "ctx \<Rightarrow> transitionCard_args \<Rightarrow> db \<Rightarrow> error + ((cardState \<times> cardState) \<times> db)" where
  "transitionCard c args s =
     (case unique_where (\<lambda>cd. card_cardId cd = tca_cardId args) (cards s) of
        Inl e \<Rightarrow> Inl e
      | Inr None \<Rightarrow> Inl (CardNotFound (tca_cardId args))
      | Inr (Some icd) \<Rightarrow>
          (let cd = snd icd; from = card_state cd in
           if tca_to args \<notin> set (VALID_TRANSITIONS from)
           then Inl (InvalidTransition from (tca_to args))
           else
             (let now = ctx_clock c;
                  s1 = s\<lparr>cards := (cards s)[fst icd := transition_patch args now cd]\<rparr>
              in case appendEvent
                     ((mkEvent (evtId c s1) (card_tenantId cd) (card_projectId cd)
                         CardTransitioned now (tca_correlationId args) ''clawops-cards''
                         (JObj [(''from'', JStr (cardState_str from)),
                                (''to'', JStr (cardState_str (tca_to args))),
                                (''reason'', JStr (tca_reason args))]))
                       \<lparr> ev_commandId := tca_commandId args, ev_runId := tca_runId args,
                         ev_cardId := Some (card_cardId cd),
                         ev_decisionId := tca_decisionId args \<rparr>) s1 of
                   Inl e \<Rightarrow> Inl e
                 | Inr r \<Rightarrow> Inr ((from, tca_to args), snd r))))"

section \<open>Command admission (commands.ts)\<close>

definition commandConstraints_json :: "commandConstraints \<Rightarrow> json" where
  "commandConstraints_json k =
     JObj [(''priority'', jopt JNum (cc_priority k)),
           (''timeoutMs'', jopt JNum (cc_timeoutMs k)),
           (''maxRetries'', jopt JNum (cc_maxRetries k)),
           (''concurrencyKey'', jopt JStr (cc_concurrencyKey k))]"

definition commandSpec_json :: "commandSpec \<Rightarrow> json" where
  "commandSpec_json sp =
     JObj [(''commandType'', JStr (commandType sp)),
           (''commandVersion'', jopt JNum (commandVersion sp)),
           (''args'', jopt id (spec_args sp)),
           (''context'', jopt id (spec_context sp)),
           (''constraints'', jopt commandConstraints_json (spec_constraints sp))]"

record requestCommand_args =
  rca_projectId :: string
  rca_correlationId :: string
  rca_title :: string
  rca_commandSpec :: commandSpec
  rca_capabilities :: "string list option"
  rca_idempotencyKey :: "string option"

definition requestCommand_handler ::
  "ctx \<Rightarrow> requestCommand_args \<Rightarrow> authContext \<Rightarrow> db \<Rightarrow> error + ((string \<times> string) \<times> db)" where
  "requestCommand_handler c args auth s =
     (let now = ctx_clock c;
          commandId = generateId c (length (commands s)) ''cmd'';
          cardId = generateId c (length (cards s)) ''card'';
          priority = (case spec_constraints (rca_commandSpec args) of
                        None \<Rightarrow> 50
                      | Some k \<Rightarrow> (case cc_priority k of None \<Rightarrow> 50 | Some p \<Rightarrow> p));
          eventId = evtId c s
      in case appendEvent
             ((mkEvent eventId (tenantId auth) (projectId auth) CommandRequested now
                 (rca_correlationId args) ''clawops-commands''
                 (JObj [(''commandSpec'', commandSpec_json (rca_commandSpec args)),
                        (''title'', JStr (rca_title args))]))
               \<lparr> ev_commandId := Some commandId, ev_cardId := Some cardId,
                 ev_idempotencyKey := rca_idempotencyKey args \<rparr>) s of
           Inl e \<Rightarrow> Inl e
         | Inr r1 \<Rightarrow>
             (let s1 = snd r1;
                  s2 = s1\<lparr>commands := commands s1 @
                         [\<lparr> cmd_commandId = commandId, cmd_tenantId = tenantId auth,
                            cmd_projectId = projectId auth, cmd_status = CmdPENDING,
                            cmd_latestRunId = None, cmd_lastEventId = Some eventId,
                            cmd_updatedTs = now, cmd_priority = priority,
                            cmd_commandSpec = rca_commandSpec args \<rparr>]\<rparr>;
                  s3 = s2\<lparr>cards := cards s2 @
                         [\<lparr> card_cardId = cardId, card_tenantId = tenantId auth,
                            card_projectId = projectId auth, card_state = READY,
                            card_priority = priority, card_title = rca_title args,
                            card_spec =
                              \<lparr> cs_commandType = commandType (rca_commandSpec args),
                                cs_args = spec_args (rca_commandSpec args),
                                cs_constraints =
                                  (case spec_constraints (rca_commandSpec args) of
                                     None \<Rightarrow> None
                                   | Some k \<Rightarrow>
                                       Some \<lparr> concurrencyKey = cc_concurrencyKey k,
                                              maxRetries = cc_maxRetries k \<rparr>) \<rparr>,
                            card_createdTs = now, card_updatedTs = now, card_attempt = 0,
                            card_retryAtTs = None,
                            card_capabilities = rca_capabilities args, card_leasedTo = None,
                            card_leaseUntilTs = None, card_lastHeartbeatTs = None \<rparr>]\<rparr>
              in case appendEvent
                     ((mkEvent (evtId c s3) (tenantId auth) (projectId auth) CardCreated now
                         (rca_correlationId args) ''clawops-commands''
                         (JObj [(''title'', JStr (rca_title args)),
                                (''priority'', JNum priority)]))
                       \<lparr> ev_commandId := Some commandId, ev_cardId := Some cardId \<rparr>) s3 of
                   Inl e \<Rightarrow> Inl e
                 | Inr r2 \<Rightarrow> Inr ((commandId, cardId), snd r2)))"

definition requestCommand ::
  "ctx \<Rightarrow> requestCommand_args \<Rightarrow> db \<Rightarrow> error + ((string \<times> string) \<times> db)" where
  "requestCommand c args s =
     withAuth [Operator, Bot, Owner] (requestCommand_handler c args) c (rca_projectId args) s"

section \<open>Decision lifecycle (decisions.ts)\<close>

definition DECISION_CLAIM_MS :: int where
  "DECISION_CLAIM_MS = 5 * 60 * 1000"

definition decisionState_str :: "decisionState \<Rightarrow> string" where
  "decisionState_str st =
     (case st of PENDING \<Rightarrow> ''PENDING'' | CLAIMED \<Rightarrow> ''CLAIMED''
      | RENDERED \<Rightarrow> ''RENDERED'' | EXPIRED \<Rightarrow> ''EXPIRED'')"

definition urgency_str :: "urgencyLevel \<Rightarrow> string" where
  "urgency_str u = (case u of Now \<Rightarrow> ''now'' | Today \<Rightarrow> ''today'' | Whenever \<Rightarrow> ''whenever'')"

text \<open>The subject ids every decision event carries.\<close>

definition decision_event ::
  "string \<Rightarrow> string \<Rightarrow> string \<Rightarrow> eventType \<Rightarrow> int \<Rightarrow> string \<Rightarrow> decision \<Rightarrow> json \<Rightarrow> event" where
  "decision_event eid tenant project ty now svc d payload =
     (mkEvent eid tenant project ty now (dec_commandId d) svc payload)
       \<lparr> ev_commandId := Some (dec_commandId d), ev_runId := Some (dec_runId d),
         ev_cardId := Some (dec_cardId d), ev_decisionId := Some (dec_decisionId d) \<rparr>"

record requestDecision_args =
  rda_projectId :: string
  rda_cardId :: string
  rda_commandId :: string
  rda_runId :: string
  rda_correlationId :: string
  rda_causationId :: "string option"
  rda_urgency :: urgencyLevel
  rda_title :: string
  rda_contextSummary :: "string option"
  rda_options :: "decisionOption list"
  rda_artifactRefs :: "string list option"
  rda_sourceThread :: "sourceThread option"
  rda_expiresAt :: "int option"
  rda_fallbackOption :: "string option"

definition requestDecision_handler ::
  "ctx \<Rightarrow> requestDecision_args \<Rightarrow> authContext \<Rightarrow> db \<Rightarrow> error + ((string \<times> nat) \<times> db)" where
  "requestDecision_handler c args auth s =
     (if rda_options args = [] then Inl InvalidOptions
      else
        (case (case rda_fallbackOption args of
                 None \<Rightarrow> None
               | Some f \<Rightarrow> if list_ex (\<lambda>o'. opt_key o' = f) (rda_options args) then None
                            else Some f) of
           Some f \<Rightarrow> Inl (InvalidFallback f)
         | None \<Rightarrow>
             (let now = ctx_clock c;
                  decisionId = generateId c (length (decisions s)) ''dec'';
                  docId = length (decisions s);
                  s1 = s\<lparr>decisions := decisions s @
                         [\<lparr> dec_decisionId = decisionId, dec_tenantId = tenantId auth,
                            dec_projectId = projectId auth, dec_cardId = rda_cardId args,
                            dec_commandId = rda_commandId args, dec_runId = rda_runId args,
                            dec_state = PENDING, dec_urgency = rda_urgency args,
                            dec_title = rda_title args,
                            dec_contextSummary = rda_contextSummary args,
                            dec_options = rda_options args,
                            dec_artifactRefs = rda_artifactRefs args,
                            dec_sourceThread = rda_sourceThread args,
                            dec_requestedAt = now, dec_expiresAt = rda_expiresAt args,
                            dec_fallbackOption = rda_fallbackOption args,
                            dec_claimedBy = None, dec_claimedUntil = None,
                            dec_renderedOption = None, dec_renderedAt = None,
                            dec_renderedBy = None \<rparr>]\<rparr>
              in case appendEvent
                     ((mkEvent (evtId c s1) (tenantId auth) (projectId auth) DecisionRequested
                         now (rda_correlationId args) ''clawops-decisions''
                         (JObj [(''title'', JStr (rda_title args)),
                                (''urgency'', JStr (urgency_str (rda_urgency args))),
                                (''optionKeys'', JArr (map (\<lambda>o'. JStr (opt_key o')) (rda_options args))),
                                (''expiresAt'', jopt JNum (rda_expiresAt args)),
                                (''fallbackOption'', jopt JStr (rda_fallbackOption args))]))
                       \<lparr> ev_causationId := rda_causationId args,
                         ev_commandId := Some (rda_commandId args),
                         ev_runId := Some (rda_runId args),
                         ev_cardId := Some (rda_cardId args),
                         ev_decisionId := Some decisionId \<rparr>) s1 of
                   Inl e \<Rightarrow> Inl e
                 | Inr r \<Rightarrow> Inr ((decisionId, docId), snd r))))"

definition requestDecision ::
  "ctx \<Rightarrow> requestDecision_args \<Rightarrow> db \<Rightarrow> error + ((string \<times> nat) \<times> db)" where
  "requestDecision c args s =
     withAuth [Bot, Owner] (requestDecision_handler c args) c (rda_projectId args) s"

text \<open>The lookup every decision mutation starts with, cross-project check included.\<close>

definition loadDecision :: "string \<Rightarrow> authContext \<Rightarrow> db \<Rightarrow> error + (nat \<times> decision)" where
  "loadDecision did auth s =
     (case unique_where (\<lambda>d. dec_decisionId d = did) (decisions s) of
        Inl e \<Rightarrow> Inl e
      | Inr None \<Rightarrow> Inl DecisionNotFound
      | Inr (Some idd) \<Rightarrow>
          if dec_projectId (snd idd) \<noteq> projectId auth then Inl DecisionNotFound
          else Inr idd)"




definition renewDecisionClaim_handler ::
  "ctx \<Rightarrow> string \<Rightarrow> authContext \<Rightarrow> db \<Rightarrow> error + (int \<times> db)" where
  "renewDecisionClaim_handler c did auth s =
     (case loadDecision did auth s of
        Inl e \<Rightarrow> Inl e
      | Inr idd \<Rightarrow>
          (let d = snd idd in
           if dec_state d \<noteq> CLAIMED \<or> dec_claimedBy d \<noteq> Some (userId auth) then Inl NotYourClaim
           else
             (let claimedUntil = ctx_clock c + DECISION_CLAIM_MS in
              Inr (claimedUntil,
                   s\<lparr>decisions := (decisions s)[fst idd :=
                        (decisions s ! fst idd)\<lparr> dec_claimedUntil := Some claimedUntil \<rparr>]\<rparr>))))"

definition renewDecisionClaim :: "ctx \<Rightarrow> string \<Rightarrow> string \<Rightarrow> db \<Rightarrow> error + (int \<times> db)" where
  "renewDecisionClaim c pid did s =
     withAuth [Operator, Owner] (renewDecisionClaim_handler c did) c pid s"

datatype renderResult = RenderedOk string | Rejected string

record renderDecision_args =
  rna_projectId :: string
  rna_decisionId :: string
  rna_optionKey :: string
  rna_note :: "string option"

definition renderDecision_handler ::
  "ctx \<Rightarrow> renderDecision_args \<Rightarrow> authContext \<Rightarrow> db \<Rightarrow> error + (renderResult \<times> db)" where
  "renderDecision_handler c args auth s =
     (case loadDecision (rna_decisionId args) auth s of
        Inl e \<Rightarrow> Inl e
      | Inr idd \<Rightarrow>
          (let d = snd idd; now = ctx_clock c in
           if dec_state d \<noteq> PENDING \<and> dec_state d \<noteq> CLAIMED then
             (case appendEvent
                     (decision_event (evtId c s) (tenantId auth) (projectId auth)
                        DecisionRenderRejected now ''clawops-decisions'' d
                        (JObj [(''attemptedOption'', JStr (rna_optionKey args)),
                               (''attemptedBy'', JStr (userId auth)),
                               (''currentState'', JStr (decisionState_str (dec_state d)))])) s of
                Inl e \<Rightarrow> Inl e
              | Inr r \<Rightarrow>
                  Inr (Rejected (''Decision already resolved (state: ''
                                   @ decisionState_str (dec_state d) @ '')''), snd r))
           else if dec_state d = CLAIMED \<and> dec_claimedBy d \<noteq> None
                   \<and> dec_claimedBy d \<noteq> Some (userId auth) then
             (case appendEvent
                     (decision_event (evtId c s) (tenantId auth) (projectId auth)
                        DecisionRenderRejected now ''clawops-decisions'' d
                        (JObj [(''attemptedOption'', JStr (rna_optionKey args)),
                               (''attemptedBy'', JStr (userId auth)),
                               (''currentState'', JStr (decisionState_str (dec_state d))),
                               (''reason'', JStr ''claimed_by_another'')])) s of
                Inl e \<Rightarrow> Inl e
              | Inr r \<Rightarrow> Inr (Rejected ''Decision is claimed by another operator'', snd r))
           else if \<not> list_ex (\<lambda>o'. opt_key o' = rna_optionKey args) (dec_options d) then
             Inl (InvalidOption (rna_optionKey args))
           else
             (let s1 = s\<lparr>decisions := (decisions s)[fst idd :=
                         (decisions s ! fst idd)
                           \<lparr> dec_state := RENDERED,
                             dec_renderedOption := Some (rna_optionKey args),
                             dec_renderedBy := Some (userId auth),
                             dec_renderedAt := Some now,
                             dec_claimedBy := None, dec_claimedUntil := None \<rparr>]\<rparr>
              in case appendEvent
                     (decision_event (evtId c s1) (tenantId auth) (projectId auth)
                        DecisionRendered now ''clawops-decisions'' d
                        (JObj [(''selectedOption'', JStr (rna_optionKey args)),
                               (''renderedBy'', JStr (userId auth)),
                               (''note'', jopt JStr (rna_note args))])) s1 of
                   Inl e \<Rightarrow> Inl e
                 | Inr r \<Rightarrow> Inr (RenderedOk (rna_optionKey args), snd r))))"

definition renderDecision ::
  "ctx \<Rightarrow> renderDecision_args \<Rightarrow> db \<Rightarrow> error + (renderResult \<times> db)" where
  "renderDecision c args s =
     withAuth [Operator, Owner] (renderDecision_handler c args) c (rna_projectId args) s"

section \<open>Sweeper (sweeper.ts)\<close>

definition DEFER_EXTENSION_MS :: int where
  "DEFER_EXTENSION_MS = 24 * 60 * 60 * 1000"

definition NOW_BACKLOG_DEFER_THRESHOLD :: nat where
  "NOW_BACKLOG_DEFER_THRESHOLD = 2"

definition NOW_BACKLOG_ALERT_THRESHOLD :: nat where
  "NOW_BACKLOG_ALERT_THRESHOLD = 5"

text \<open>A nested \<open>transitionCard\<close> whose return value the sweeper drops.\<close>

definition runTransition :: "ctx \<Rightarrow> transitionCard_args \<Rightarrow> db \<Rightarrow> error + db" where
  "runTransition c args s =
     (case transitionCard c args s of Inl e \<Rightarrow> Inl e | Inr r \<Rightarrow> Inr (snd r))"

definition releaseRetry :: "ctx \<Rightarrow> int \<Rightarrow> nat \<times> card \<Rightarrow> db \<Rightarrow> error + db" where
  "releaseRetry c now icd s =
     (let cd = snd icd in
      if (case card_retryAtTs cd of None \<Rightarrow> False | Some t \<Rightarrow> t \<le> now) then
        runTransition c
          \<lparr> tca_cardId = card_cardId cd, tca_to = READY, tca_reason = ''retry timer fired'',
            tca_correlationId = card_cardId cd, tca_commandId = None, tca_runId = None,
            tca_decisionId = None, tca_retryAtTs = None \<rparr> s
      else Inr s)"

definition releaseRetries :: "ctx \<Rightarrow> int \<Rightarrow> db \<Rightarrow> error + db" where
  "releaseRetries c now s =
     forEach (releaseRetry c now)
       (rows_where (\<lambda>cd. card_state cd = RETRY_SCHEDULED) (cards s)) s"

text \<open>
  The card step the sweeper repeats after resolving a decision: look the linked card up
  and, if it is in \<open>NEEDS_DECISION\<close>, transition it.
\<close>

definition resumeCard :: "ctx \<Rightarrow> decision \<Rightarrow> cardState \<Rightarrow> string \<Rightarrow> db \<Rightarrow> error + db" where
  "resumeCard c d to reason s =
     (case unique_where (\<lambda>cd. card_cardId cd = dec_cardId d) (cards s) of
        Inl e \<Rightarrow> Inl e
      | Inr None \<Rightarrow> Inr s
      | Inr (Some icd) \<Rightarrow>
          if card_state (snd icd) = NEEDS_DECISION then
            runTransition c
              \<lparr> tca_cardId = dec_cardId d, tca_to = to, tca_reason = reason,
                tca_correlationId = dec_commandId d, tca_commandId = Some (dec_commandId d),
                tca_runId = Some (dec_runId d), tca_decisionId = Some (dec_decisionId d),
                tca_retryAtTs = None \<rparr> s
          else Inr s)"

definition sweeper_event :: "ctx \<Rightarrow> db \<Rightarrow> eventType \<Rightarrow> int \<Rightarrow> decision \<Rightarrow> json \<Rightarrow> event" where
  "sweeper_event c s ty now d payload =
     decision_event (evtId c s) (dec_tenantId d) (dec_projectId d) ty now ''clawops-sweeper'' d
       payload"

definition appendOnly :: "event \<Rightarrow> db \<Rightarrow> error + db" where
  "appendOnly e s = (case appendEvent e s of Inl err \<Rightarrow> Inl err | Inr r \<Rightarrow> Inr (snd r))"

definition patch_decision :: "nat \<Rightarrow> (decision \<Rightarrow> decision) \<Rightarrow> db \<Rightarrow> db" where
  "patch_decision i f s = s\<lparr>decisions := (decisions s)[i := f (decisions s ! i)]\<rparr>"

definition expireDecision :: "ctx \<Rightarrow> int \<Rightarrow> nat \<times> decision \<Rightarrow> db \<Rightarrow> error + db" where
  "expireDecision c now idd s =
     (let i = fst idd; d = snd idd in
      case appendOnly
             (sweeper_event c s DecisionExpired now d
                (JObj [(''expiresAt'', jopt JNum (dec_expiresAt d)),
                       (''hadFallback'', JBool (dec_fallbackOption d \<noteq> None))])) s of
        Inl e \<Rightarrow> Inl e
      | Inr s1 \<Rightarrow>
          (case dec_fallbackOption d of
             Some fb \<Rightarrow>
               (let s2 = patch_decision i
                           (\<lambda>r. r\<lparr> dec_state := RENDERED, dec_renderedOption := Some fb,
                                   dec_renderedBy := Some ''system:sweeper'',
                                   dec_renderedAt := Some now,
                                   dec_claimedBy := None, dec_claimedUntil := None \<rparr>) s1
                in case appendOnly
                       (sweeper_event c s2 DecisionRendered now d
                          (JObj [(''selectedOption'', JStr fb),
                                 (''renderedBy'', JStr ''system:sweeper''),
                                 (''note'', JStr ''auto-resolved via fallback on expiration'')])) s2 of
                     Inl e \<Rightarrow> Inl e
                   | Inr s3 \<Rightarrow> resumeCard c d RUNNING ''decision expired, fallback applied'' s3)
           | None \<Rightarrow>
               (let s2 = patch_decision i
                           (\<lambda>r. r\<lparr> dec_state := EXPIRED,
                                   dec_claimedBy := None, dec_claimedUntil := None \<rparr>) s1
                in resumeCard c d FAILED ''decision expired, no fallback'' s2)))"

definition is_open :: "decision \<Rightarrow> bool" where
  "is_open d = (dec_state d = PENDING \<or> dec_state d = CLAIMED)"

definition is_due :: "int \<Rightarrow> decision \<Rightarrow> bool" where
  "is_due now d = (case dec_expiresAt d of None \<Rightarrow> False | Some t \<Rightarrow> t \<le> now)"

definition expireDecisions :: "ctx \<Rightarrow> int \<Rightarrow> db \<Rightarrow> error + db" where
  "expireDecisions c now s =
     (let openDecisions = rows_where is_open (decisions s);
          expired = filter (\<lambda>idd. is_due now (snd idd)) openDecisions
      in forEach (expireDecision c now) expired s)"

definition reclaimClaim :: "ctx \<Rightarrow> int \<Rightarrow> nat \<times> decision \<Rightarrow> db \<Rightarrow> error + db" where
  "reclaimClaim c now idd s =
     (let i = fst idd; d = snd idd;
          s1 = patch_decision i
                 (\<lambda>r. r\<lparr> dec_state := PENDING, dec_claimedBy := None,
                         dec_claimedUntil := None \<rparr>) s
      in appendOnly
           (sweeper_event c s1 DecisionClaimExpired now d
              (JObj [(''previousClaimedBy'', jopt JStr (dec_claimedBy d)),
                     (''claimedUntil'', jopt JNum (dec_claimedUntil d))])) s1)"

definition reclaimExpiredClaims :: "ctx \<Rightarrow> int \<Rightarrow> db \<Rightarrow> error + db" where
  "reclaimExpiredClaims c now s =
     (let claimedDecisions = rows_where (\<lambda>d. dec_state d = CLAIMED) (decisions s);
          expiredClaims = filter (\<lambda>idd. case dec_claimedUntil (snd idd) of
                                           None \<Rightarrow> False | Some t \<Rightarrow> t < now) claimedDecisions
      in forEach (reclaimClaim c now) expiredClaims s)"

text \<open>
  \<open>nowBacklog\<close>: the JavaScript \<open>Map\<close> from project id to the number of open
  now-urgency decisions, as an association list in first-insertion order.
\<close>

definition countProject :: "(string \<times> nat) list \<Rightarrow> decision \<Rightarrow> (string \<times> nat) list" where
  "countProject m d =
     AList.update (dec_projectId d)
       ((case map_of m (dec_projectId d) of None \<Rightarrow> 0 | Some n \<Rightarrow> n) + 1) m"

definition nowBacklog :: "db \<Rightarrow> (string \<times> nat) list" where
  "nowBacklog s =
     foldl countProject []
       (map snd (rows_where (\<lambda>d. is_open d \<and> dec_urgency d = Now) (decisions s)))"

definition shedDecision :: "ctx \<Rightarrow> int \<Rightarrow> nat \<Rightarrow> nat \<times> decision \<Rightarrow> db \<Rightarrow> error + db" where
  "shedDecision c now count idd s =
     (let i = fst idd; d = snd idd in
      case dec_fallbackOption d of
        Some fb \<Rightarrow>
          (let s1 = patch_decision i
                      (\<lambda>r. r\<lparr> dec_state := RENDERED, dec_renderedOption := Some fb,
                              dec_renderedBy := Some ''system:sweeper'',
                              dec_renderedAt := Some now \<rparr>) s
           in case appendOnly
                  (sweeper_event c s1 DecisionDeferred now d
                     (JObj [(''reason'', JStr ''load_shedding''),
                            (''originalUrgency'', JStr ''whenever''),
                            (''action'', JStr ''auto_resolved_with_fallback''),
                            (''nowBacklog'', JNum (int count))])) s1 of
                Inl e \<Rightarrow> Inl e
              | Inr s2 \<Rightarrow>
                  (case appendOnly
                         (sweeper_event c s2 DecisionRendered now d
                            (JObj [(''selectedOption'', JStr fb),
                                   (''renderedBy'', JStr ''system:sweeper''),
                                   (''note'', JStr ''auto-resolved via load shedding'')])) s2 of
                     Inl e \<Rightarrow> Inl e
                   | Inr s3 \<Rightarrow>
                       resumeCard c d RUNNING ''decision deferred, fallback applied'' s3))
      | None \<Rightarrow>
          (let newExpiresAt =
                 (case dec_expiresAt d of None \<Rightarrow> now | Some t \<Rightarrow> t) + DEFER_EXTENSION_MS;
               s1 = patch_decision i (\<lambda>r. r\<lparr> dec_expiresAt := Some newExpiresAt \<rparr>) s
           in appendOnly
                (sweeper_event c s1 DecisionDeferred now d
                   (JObj [(''reason'', JStr ''load_shedding''),
                          (''originalUrgency'', JStr ''whenever''),
                          (''action'', JStr ''extended_expiry''),
                          (''newExpiresAt'', JNum newExpiresAt),
                          (''nowBacklog'', JNum (int count))])) s1))"

text \<open>
  One project of the backlog. The emergency branch only writes to the console and has
  no effect on the database.
\<close>

definition shedProject :: "ctx \<Rightarrow> int \<Rightarrow> string \<times> nat \<Rightarrow> db \<Rightarrow> error + db" where
  "shedProject c now pc s =
     (if snd pc > NOW_BACKLOG_DEFER_THRESHOLD then
        forEach (shedDecision c now (snd pc))
          (rows_where (\<lambda>d. dec_projectId d = fst pc \<and> dec_state d = PENDING
                            \<and> dec_urgency d = Whenever) (decisions s)) s
      else Inr s)"

definition loadShed :: "ctx \<Rightarrow> int \<Rightarrow> db \<Rightarrow> error + db" where
  "loadShed c now s = forEach (shedProject c now) (nowBacklog s) s"

definition sweep :: "ctx \<Rightarrow> int option \<Rightarrow> db \<Rightarrow> error + db" where
  "sweep c nowArg s =
     (let now = (case nowArg of None \<Rightarrow> ctx_clock c | Some n \<Rightarrow> n) in
      case releaseRetries c now s of
        Inl e \<Rightarrow> Inl e
      | Inr s1 \<Rightarrow>
          (case expireDecisions c now s1 of
             Inl e \<Rightarrow> Inl e
           | Inr s2 \<Rightarrow>
               (case reclaimExpiredClaims c now s2 of
                  Inl e \<Rightarrow> Inl e
                | Inr s3 \<Rightarrow> loadShed c now s3)))"

section \<open>Basic facts\<close>

declare containsSecret.simps(2) [simp del]

lemma rows_where_iff: "(i, x) \<in> set (rows_where P xs) \<longleftrightarrow> i < length xs \<and> xs ! i = x \<and> P x"
  by (auto simp: rows_where_def in_set_enumerate_eq)

lemma rows_where_distinct: "distinct (map fst (rows_where P xs))"
  unfolding rows_where_def by (simp add: distinct_map_filter)


lemma unique_where_None:
  assumes "unique_where P xs = Inr None"
  shows "\<forall>j<length xs. \<not> P (xs ! j)"
proof -
  from assms have eq: "rows_where P xs = []"
    by (auto simp: unique_where_def split: list.splits)
  show ?thesis
  proof (intro allI impI notI)
    fix j assume "j < length xs" "P (xs ! j)"
    then have "(j, xs ! j) \<in> set (rows_where P xs)" by (simp add: rows_where_iff)
    then show False by (simp add: eq)
  qed
qed

lemma secret_state_str: "\<not> containsSecret (JStr (decisionState_str st))"
  by (cases st; simp add: decisionState_str_def; code_simp)

lemma secret_card_str: "\<not> containsSecret (JStr (cardState_str st))"
  by (cases st; simp add: cardState_str_def; code_simp)

lemma mkEvent_sel [simp]:
  "ev_idempotencyKey (mkEvent eid t p ty ts corr svc pl) = None"
  "ev_tags (mkEvent eid t p ty ts corr svc pl) = None"
  "ev_payload (mkEvent eid t p ty ts corr svc pl) = pl"
  "ev_type (mkEvent eid t p ty ts corr svc pl) = ty"
  "ev_decisionId (mkEvent eid t p ty ts corr svc pl) = None"
  "ev_cardId (mkEvent eid t p ty ts corr svc pl) = None"
  by (simp_all add: mkEvent_def)

lemma decision_event_sel [simp]:
  "ev_idempotencyKey (decision_event eid t p ty ts svc d pl) = None"
  "ev_tags (decision_event eid t p ty ts svc d pl) = None"
  "ev_payload (decision_event eid t p ty ts svc d pl) = pl"
  "ev_type (decision_event eid t p ty ts svc d pl) = ty"
  "ev_decisionId (decision_event eid t p ty ts svc d pl) = Some (dec_decisionId d)"
  "ev_cardId (decision_event eid t p ty ts svc d pl) = Some (dec_cardId d)"
  by (simp_all add: decision_event_def)

lemma appendEvent_plain:
  assumes "ev_idempotencyKey e = None" "ev_tags e = None"
  shows "appendEvent e s =
    (if containsSecret (ev_payload e) then Inl SecretInPayload
     else Inr (length (events s), s\<lparr>events := events s @ [e]\<rparr>))"
  using assms by (simp add: appendEvent_def)

lemma appendOnly_plain:
  assumes "ev_idempotencyKey e = None" "ev_tags e = None"
  shows "appendOnly e s =
    (if containsSecret (ev_payload e) then Inl SecretInPayload
     else Inr (s\<lparr>events := events s @ [e]\<rparr>))"
  using assms by (simp add: appendOnly_def appendEvent_plain)

lemma secret_claimed_by_another: "\<not> containsSecret (JStr ''claimed_by_another'')"
  by code_simp


section \<open>Scenario data\<close>

definition anonymous :: ctx where
  "anonymous = \<lparr> ctx_auth = None, ctx_clock = 1000, ctx_rnd = (\<lambda>k. ''r'') \<rparr>"

definition empty_db :: db where
  "empty_db = \<lparr> events = [], commands = [], cards = [], decisions = [], project_members = [] \<rparr>"

definition base_card :: createCard_args where
  "base_card =
     \<lparr> cca_tenantId = ''t'', cca_projectId = ''p'', cca_commandId = ''cmd'',
       cca_correlationId = ''corr'', cca_title = ''Test card'', cca_priority = 50,
       cca_spec = \<lparr> cs_commandType = ''test.run'', cs_args = None, cs_constraints = None \<rparr>,
       cca_capabilities = None \<rparr>"

definition as_user :: "string \<Rightarrow> ctx" where
  "as_user u =
     \<lparr> ctx_auth = Some \<lparr> subject = Some u, tokenIdentifier = ''tok'' \<rparr>,
       ctx_clock = 1000, ctx_rnd = (\<lambda>k. replicate (Suc k) (CHR ''x'')) \<rparr>"

definition members_db :: db where
  "members_db = empty_db
     \<lparr> project_members :=
         [\<lparr> mem_tenantId = ''t'', mem_projectId = ''p'', mem_userId = ''user:alice'', mem_role = Owner \<rparr>,
          \<lparr> mem_tenantId = ''t'', mem_projectId = ''p'', mem_userId = ''user:operator'', mem_role = Operator \<rparr>,
          \<lparr> mem_tenantId = ''t'', mem_projectId = ''p'', mem_userId = ''user:bot'', mem_role = Bot \<rparr>] \<rparr>"

definition operator_auth :: authContext where
  "operator_auth = \<lparr> userId = ''user:operator'', tenantId = ''t'', projectId = ''p'', role = Operator \<rparr>"

definition base_decision :: decision where
  "base_decision =
     \<lparr> dec_decisionId = ''dec_1'', dec_tenantId = ''t'', dec_projectId = ''p'',
       dec_cardId = ''card_1'', dec_commandId = ''cmd_1'', dec_runId = ''run_1'',
       dec_state = PENDING, dec_urgency = Today, dec_title = ''Approve test artifact'',
       dec_contextSummary = None,
       dec_options =
         [\<lparr> opt_key = ''approve'', opt_label = ''Approve'', opt_consequence = ''Proceed'' \<rparr>,
          \<lparr> opt_key = ''reject'', opt_label = ''Reject'', opt_consequence = ''Stop'' \<rparr>],
       dec_artifactRefs = None, dec_sourceThread = None, dec_requestedAt = 0,
       dec_expiresAt = None, dec_fallbackOption = None, dec_claimedBy = None,
       dec_claimedUntil = None, dec_renderedOption = None, dec_renderedAt = None,
       dec_renderedBy = None \<rparr>"

definition rendered_decision :: decision where
  "rendered_decision = base_decision
     \<lparr> dec_state := RENDERED, dec_renderedOption := Some ''approve'',
       dec_renderedBy := Some ''user:alice'', dec_renderedAt := Some 500 \<rparr>"

definition rendered_db :: db where
  "rendered_db = members_db \<lparr> decisions := [rendered_decision] \<rparr>"

definition render_args :: "string \<Rightarrow> renderDecision_args" where
  "render_args key =
     \<lparr> rna_projectId = ''p'', rna_decisionId = ''dec_1'', rna_optionKey = key, rna_note = None \<rparr>"


definition digest_command :: requestCommand_args where
  "digest_command =
     \<lparr> rca_projectId = ''p'', rca_correlationId = ''corr_digest'',
       rca_title = ''Weekly digest compile + publish'',
       rca_commandSpec =
         \<lparr> commandType = ''digest.compile'', commandVersion = None, spec_args = None,
           spec_context = None,
           spec_constraints =
             Some \<lparr> cc_priority = Some 30, cc_timeoutMs = None, cc_maxRetries = None,
                    cc_concurrencyKey = None \<rparr> \<rparr>,
       rca_capabilities = None,
       rca_idempotencyKey = Some ''digest-compile-2026-w09'' \<rparr>"

section \<open>Card creation and the access guard\<close>

text \<open>
  C3 (create_card is admitted for bot and owner only). The handler of \<open>createCard\<close> is
  not wrapped in the access guard: called with no identity, on a database with no
  project member at all, it returns normally, inserts the card row in \<open>READY\<close> and
  appends the \<open>CardCreated\<close> event.
\<close>

theorem createCard_without_identity:
  "(case createCard anonymous base_card empty_db of
      Inl e \<Rightarrow> False
    | Inr r \<Rightarrow> fst r = (''card_r'', 0)
        \<and> map card_state (cards (snd r)) = [READY]
        \<and> map ev_type (events (snd r)) = [CardCreated])"
  by code_simp

section \<open>Command admission and idempotency keys\<close>

text \<open>
  C2 (a second request_command with the same idempotency key yields the original
  \<open>CommandRequested\<close> event and suppresses the downstream inserts). \<open>appendEvent\<close> does
  return the existing event for the duplicate key, but \<open>requestCommand\<close> drops that result:
  the second call with the key of the first inserts a second command row and a second card
  row and appends a second \<open>CardCreated\<close> event, and returns fresh ids.
\<close>

theorem requestCommand_duplicate_key:
  "(case requestCommand (as_user ''user:bot'') digest_command members_db of
      Inl e \<Rightarrow> False
    | Inr r1 \<Rightarrow>
        (case requestCommand (as_user ''user:bot'') digest_command (snd r1) of
           Inl e \<Rightarrow> False
         | Inr r2 \<Rightarrow>
             fst r1 = (''cmd_x'', ''card_x'')
             \<and> fst r2 = (''cmd_xx'', ''card_xx'')
             \<and> map ev_type (events (snd r1)) = [CommandRequested, CardCreated]
             \<and> map ev_type (events (snd r2)) = [CommandRequested, CardCreated, CardCreated]
             \<and> map cmd_commandId (commands (snd r2)) = [''cmd_x'', ''cmd_xx'']
             \<and> map card_cardId (cards (snd r2)) = [''card_x'', ''card_xx'']))"
  by code_simp

section \<open>Claiming a decision\<close>









section \<open>Rejected renders\<close>

definition rejected_event :: "ctx \<Rightarrow> renderDecision_args \<Rightarrow> authContext \<Rightarrow> db \<Rightarrow> decision \<Rightarrow> (string \<times> json) list \<Rightarrow> event" where
  "rejected_event c args auth s d extra =
     decision_event (evtId c s) (tenantId auth) (projectId auth) DecisionRenderRejected
       (ctx_clock c) ''clawops-decisions'' d
       (JObj ([(''attemptedOption'', JStr (rna_optionKey args)),
               (''attemptedBy'', JStr (userId auth)),
               (''currentState'', JStr (decisionState_str (dec_state d)))] @ extra))"

text \<open>
  C6 (render_decision on a resolved decision, or by a non-claimant), as amended. For a
  caller admitted by the guard as operator or owner: on a decision that is neither
  \<open>PENDING\<close> nor \<open>CLAIMED\<close>, and on a \<open>CLAIMED\<close> decision held by another user, the call
  appends \<open>DecisionRenderRejected\<close> (attempted option, caller, current state, and the reason
  \<open>claimed_by_another\<close> in the second case), changes nothing else and returns
  \<open>rejected\<close>, unless the attempted option key or the caller id matches the secret
  denylist: then \<open>appendEvent\<close> throws, the call fails and nothing is recorded.
\<close>

theorem renderDecision_rejection:
  assumes auth: "resolveAuth c (rna_projectId args) s = Inr auth"
    and role: "role auth = Owner \<or> role auth = Operator"
    and load: "loadDecision (rna_decisionId args) auth s = Inr (i, d)"
  shows "(\<not> is_open d \<longrightarrow>
            renderDecision c args s =
              (if containsSecret (JStr (rna_optionKey args)) \<or> containsSecret (JStr (userId auth))
               then Inl SecretInPayload
               else Inr (Rejected (''Decision already resolved (state: ''
                                     @ decisionState_str (dec_state d) @ '')''),
                         s\<lparr>events := events s @ [rejected_event c args auth s d []]\<rparr>)))
       \<and> (dec_state d = CLAIMED \<and> (\<exists>who. dec_claimedBy d = Some who \<and> who \<noteq> userId auth) \<longrightarrow>
            renderDecision c args s =
              (if containsSecret (JStr (rna_optionKey args)) \<or> containsSecret (JStr (userId auth))
               then Inl SecretInPayload
               else Inr (Rejected ''Decision is claimed by another operator'',
                         s\<lparr>events := events s @
                            [rejected_event c args auth s d
                               [(''reason'', JStr ''claimed_by_another'')]]\<rparr>)))"
proof -
  have w: "renderDecision c args s = renderDecision_handler c args auth s"
    using auth role by (auto simp: renderDecision_def withAuth_def)
  show ?thesis
    using load
    by (auto simp: w renderDecision_handler_def Let_def is_open_def rejected_event_def
        appendEvent_plain secret_state_str secret_claimed_by_another)
qed

theorem renderDecision_rejection_witness:
  "resolveAuth (as_user ''user:operator'') ''p'' rendered_db = Inr operator_auth
   \<and> loadDecision ''dec_1'' operator_auth rendered_db = Inr (0, rendered_decision)
   \<and> \<not> is_open rendered_decision
   \<and> renderDecision (as_user ''user:operator'') (render_args ''approve'') rendered_db =
       Inr (Rejected ''Decision already resolved (state: RENDERED)'',
            rendered_db\<lparr>events :=
              [rejected_event (as_user ''user:operator'') (render_args ''approve'')
                 operator_auth rendered_db rendered_decision []]\<rparr>)"
proof -
  have a: "resolveAuth (as_user ''user:operator'') (rna_projectId (render_args ''approve'')) rendered_db
             = Inr operator_auth"
    by code_simp
  have r: "role operator_auth = Owner \<or> role operator_auth = Operator"
    by (simp add: operator_auth_def)
  have l: "loadDecision (rna_decisionId (render_args ''approve'')) operator_auth rendered_db
             = Inr (0, rendered_decision)"
    by code_simp
  have n: "\<not> is_open rendered_decision"
    by code_simp
  have k: "\<not> containsSecret (JStr (rna_optionKey (render_args ''approve'')))"
    by code_simp
  have u: "\<not> containsSecret (JStr (userId operator_auth))"
    by code_simp
  have st: "decisionState_str (dec_state rendered_decision) = ''RENDERED''"
    by code_simp
  have ev: "events rendered_db = []"
    by code_simp
  from renderDecision_rejection [OF a r l] n k u st ev
  have "renderDecision (as_user ''user:operator'') (render_args ''approve'') rendered_db =
       Inr (Rejected ''Decision already resolved (state: RENDERED)'',
            rendered_db\<lparr>events :=
              [rejected_event (as_user ''user:operator'') (render_args ''approve'')
                 operator_auth rendered_db rendered_decision []]\<rparr>)"
    by simp
  with a l n show ?thesis by (simp add: render_args_def)
qed

text \<open>
  The claim as stated ("does not throw") fails: a render of an already rendered decision
  with the option key \<open>Bearer x\<close> throws.
\<close>

theorem renderDecision_throws_on_secret_option:
  "dec_state (decisions rendered_db ! 0) = RENDERED
   \<and> renderDecision (as_user ''user:operator'') (render_args ''Bearer x'') rendered_db
       = Inl SecretInPayload"
  by code_simp

end
